theory Spec2Isabelle
  imports Complex_Main "HOL-Library.Word"
begin

unbundle bit_operations_syntax

section \<open>Retro music tracker: domain model, playback engine and WAV exporter\<close>

text \<open>
  Conventions of the embedding. A JavaScript \<open>number\<close> that the code uses as an index
  or a count (step position, channel index, step count, repeat count, loop counter) is an
  \<open>int\<close>; a number that is a time, a tempo or a note length is a \<open>rat\<close>, so the
  arithmetic is exact where the program rounds to a double. A thrown exception is the
  \<open>Inl\<close> side of a sum; \<open>Error msg\<close> is \<open>new Error(msg)\<close>, \<open>TypeError\<close> is what the
  runtime throws when a method is called on \<open>undefined\<close> or \<open>null\<close>, \<open>RangeError\<close> is
  what a \<open>DataView\<close> throws for a write outside its buffer.
\<close>

datatype error = Error string | TypeError | RangeError

subsection \<open>Note (src/domain/Note.ts)\<close>

text \<open>\<open>!s || s.trim() === ''\<close>: the string is empty or consists of white space only.\<close>

definition isSpace :: "char \<Rightarrow> bool" where
  "isSpace c = (c = CHR '' '' \<or> c = CHR 0x09 \<or> c = CHR 0x0A \<or> c = CHR 0x0B
                \<or> c = CHR 0x0C \<or> c = CHR 0x0D)"

definition blank :: "string \<Rightarrow> bool" where
  "blank s = list_all isSpace s"

record Note =
  pitch :: string
  duration :: rat
  channel :: int

definition Note_new :: "string \<Rightarrow> rat \<Rightarrow> int \<Rightarrow> error + Note" where
  "Note_new p d c =
     (if blank p then Inl (Error ''Pitch cannot be empty'')
      else if d \<le> 0 then Inl (Error ''Duration must be positive'')
      else if c < 0 then Inl (Error ''Channel must be non-negative'')
      else Inr \<lparr>pitch = p, duration = d, channel = c\<rparr>)"

subsection \<open>Step (Step.ts)\<close>

record Step =
  position :: int
  step_notes :: "Note list"

definition Step_new :: "int \<Rightarrow> Note list \<Rightarrow> error + Step" where
  "Step_new pos ns =
     (if pos < 0 then Inl (Error ''Position must be non-negative'')
      else Inr \<lparr>position = pos, step_notes = ns\<rparr>)"

definition Step_addNote :: "Step \<Rightarrow> Note \<Rightarrow> error + Step" where
  "Step_addNote s n = Step_new (position s) (step_notes s @ [n])"

definition hasNoteForChannel :: "Step \<Rightarrow> int \<Rightarrow> bool" where
  "hasNoteForChannel s c = list_ex (\<lambda>n. channel n = c) (step_notes s)"

definition getNoteForChannel :: "Step \<Rightarrow> int \<Rightarrow> Note option" where
  "getNoteForChannel s c = find (\<lambda>n. channel n = c) (step_notes s)"

definition Step_isEmpty :: "Step \<Rightarrow> bool" where
  "Step_isEmpty s = (length (step_notes s) = 0)"

definition removeNoteAtChannel :: "Step \<Rightarrow> int \<Rightarrow> error + Step" where
  "removeNoteAtChannel s c = Step_new (position s) (filter (\<lambda>n. channel n \<noteq> c) (step_notes s))"

subsection \<open>Pattern (Pattern.ts)\<close>

record Pattern =
  pat_id :: string
  pat_name :: string
  stepCount :: int
  steps :: "Step list"

text \<open>The loop of the constructor that pushes \<open>new Step(i)\<close> for \<open>i = 0, ..., stepCount - 1\<close>.\<close>

definition emptySteps :: "int \<Rightarrow> Step list" where
  "emptySteps n = map (\<lambda>i. \<lparr>position = i, step_notes = []\<rparr>) [0..n - 1]"

text \<open>
  The optional fourth argument \<open>steps\<close> is \<open>None\<close> when it is left out. A given array is
  copied as it is: the constructor compares neither its length with \<open>stepCount\<close> nor the
  positions of its steps with their indices.
\<close>

definition Pattern_new :: "string \<Rightarrow> string \<Rightarrow> int \<Rightarrow> Step list option \<Rightarrow> error + Pattern" where
  "Pattern_new i n sc sts =
     (if blank i then Inl (Error ''Pattern id cannot be empty'')
      else if blank n then Inl (Error ''Pattern name cannot be empty'')
      else if sc \<le> 0 then Inl (Error ''Step count must be positive'')
      else Inr \<lparr>pat_id = i, pat_name = n, stepCount = sc,
                steps = (case sts of Some xs \<Rightarrow> xs | None \<Rightarrow> emptySteps sc)\<rparr>)"

text \<open>Reading a JavaScript array at an index: \<open>None\<close> is \<open>undefined\<close>.\<close>

definition at_index :: "'a list \<Rightarrow> int \<Rightarrow> 'a option" where
  "at_index xs i = (if 0 \<le> i \<and> i < int (length xs) then Some (xs ! nat i) else None)"

text \<open>
  \<open>getStep\<close> checks the position against \<open>stepCount\<close> and then returns
  \<open>this.steps[position]\<close>, which is \<open>undefined\<close> (\<open>Inr None\<close>) when the array is shorter.
\<close>

definition getStep :: "Pattern \<Rightarrow> int \<Rightarrow> error + Step option" where
  "getStep p pos =
     (if pos < 0 \<or> pos \<ge> stepCount p then Inl (Error ''Step position out of bounds'')
      else Inr (at_index (steps p) pos))"

definition getAllSteps :: "Pattern \<Rightarrow> Step list" where
  "getAllSteps p = steps p"

definition addNoteAtStep :: "Pattern \<Rightarrow> int \<Rightarrow> Note \<Rightarrow> error + Pattern" where
  "addNoteAtStep p pos n =
     (if pos < 0 \<or> pos \<ge> stepCount p then Inl (Error ''Step position out of bounds'')
      else case at_index (steps p) pos of
             None \<Rightarrow> Inl TypeError
           | Some st \<Rightarrow>
               (case Step_addNote st n of
                  Inl e \<Rightarrow> Inl e
                | Inr st' \<Rightarrow>
                    Pattern_new (pat_id p) (pat_name p) (stepCount p)
                      (Some ((steps p)[nat pos := st']))))"

definition Pattern_isEmpty :: "Pattern \<Rightarrow> bool" where
  "Pattern_isEmpty p = list_all Step_isEmpty (steps p)"

subsection \<open>PatternEditor (PatternEditor.ts)\<close>

text \<open>Sequencing of calls that may throw: the first exception ends the computation.\<close>

definition andThen :: "error + 'a \<Rightarrow> ('a \<Rightarrow> error + 'b) \<Rightarrow> error + 'b" where
  "andThen r f = (case r of Inl e \<Rightarrow> Inl e | Inr x \<Rightarrow> f x)"

text \<open>The decimal form of an integer, as a template literal prints it.\<close>

fun showNat :: "nat \<Rightarrow> string" where
  "showNat n = (if n < 10 then [''0123456789'' ! n]
                else showNat (n div 10) @ [''0123456789'' ! (n mod 10)])"

definition showInt :: "int \<Rightarrow> string" where
  "showInt i = (if i < 0 then CHR ''-'' # showNat (nat (- i)) else showNat (nat i))"

record PatternEditor =
  ed_currentPattern :: Pattern
  ed_maxChannels :: int

definition validateChannelIndex :: "PatternEditor \<Rightarrow> int \<Rightarrow> error + unit" where
  "validateChannelIndex ed c =
     (if c \<ge> ed_maxChannels ed
      then Inl (Error (''Channel '' @ showInt c @ '' exceeds pattern channel limit''))
      else if c < 0 then Inl (Error (''Channel '' @ showInt c @ '' is negative''))
      else Inr ())"

definition validateStepIndex :: "PatternEditor \<Rightarrow> int \<Rightarrow> error + unit" where
  "validateStepIndex ed i =
     (if i \<ge> stepCount (ed_currentPattern ed)
      then Inl (Error (''Step '' @ showInt i @ '' is out of bounds''))
      else if i < 0 then Inl (Error (''Step '' @ showInt i @ '' is negative''))
      else Inr ())"

text \<open>A method call on the result of \<open>getStep\<close>: a \<open>TypeError\<close> when that is \<open>undefined\<close>.\<close>

definition defined :: "'a option \<Rightarrow> error + 'a" where
  "defined x = (case x of None \<Rightarrow> Inl TypeError | Some v \<Rightarrow> Inr v)"

text \<open>
  \<open>PatternEditor.addNote\<close>: both validations, a copy of the note on the given channel, the
  step without its note on that channel, the new note appended, and a new pattern around
  the changed step array. An exception leaves the editor as it was.
\<close>

definition PatternEditor_addNote ::
  "PatternEditor \<Rightarrow> int \<Rightarrow> int \<Rightarrow> Note \<Rightarrow> error + PatternEditor" where
  "PatternEditor_addNote ed stepIndex channelIndex note =
     andThen (validateChannelIndex ed channelIndex) (\<lambda>_.
     andThen (validateStepIndex ed stepIndex) (\<lambda>_.
     andThen (Note_new (pitch note) (duration note) channelIndex) (\<lambda>noteWithChannel.
     andThen (getStep (ed_currentPattern ed) stepIndex) (\<lambda>got.
     andThen (defined got) (\<lambda>step.
     andThen (removeNoteAtChannel step channelIndex) (\<lambda>updatedStep.
     andThen (Step_addNote updatedStep noteWithChannel) (\<lambda>updatedStep'.
     andThen (Pattern_new (pat_id (ed_currentPattern ed)) (pat_name (ed_currentPattern ed))
                (stepCount (ed_currentPattern ed))
                (Some ((getAllSteps (ed_currentPattern ed))[nat stepIndex := updatedStep'])))
       (\<lambda>p. Inr (ed\<lparr>ed_currentPattern := p\<rparr>)))))))))"

text \<open>No step of the pattern holds two notes on one channel.\<close>

definition oneNotePerChannel :: "Step \<Rightarrow> bool" where
  "oneNotePerChannel s = distinct (map channel (step_notes s))"

definition patternOneNotePerChannel :: "Pattern \<Rightarrow> bool" where
  "patternOneNotePerChannel p = list_all oneNotePerChannel (steps p)"

subsection \<open>Song and PatternEntry (Song.ts), SongComposer.validateFiniteLoop\<close>

record PatternEntry =
  patternId :: string
  repeat :: int

definition PatternEntry_new :: "string \<Rightarrow> int \<Rightarrow> error + PatternEntry" where
  "PatternEntry_new pid r =
     (if blank pid then Inl (Error ''Pattern id cannot be empty'')
      else if r \<le> 0 then Inl (Error ''Repeat must be positive'')
      else Inr \<lparr>patternId = pid, repeat = r\<rparr>)"

record Song =
  song_id :: string
  song_name :: string
  song_bpm :: rat
  repeatCount :: int
  patternSequence :: "PatternEntry list"

text \<open>
  The constructor's last check is \<open>repeatCount <= 0 || !Number.isFinite(repeatCount)\<close>;
  every \<open>int\<close> is finite, so the second disjunct has no counterpart here.
\<close>

definition Song_new :: "string \<Rightarrow> string \<Rightarrow> rat \<Rightarrow> int \<Rightarrow> PatternEntry list \<Rightarrow> error + Song" where
  "Song_new i n b rc sq =
     (if blank i then Inl (Error ''Song id cannot be empty'')
      else if blank n then Inl (Error ''Song name cannot be empty'')
      else if b \<le> 0 then Inl (Error ''BPM must be positive'')
      else if rc \<le> 0 then Inl (Error ''Repeat count must be positive and finite'')
      else Inr \<lparr>song_id = i, song_name = n, song_bpm = b, repeatCount = rc,
                patternSequence = sq\<rparr>)"


subsection \<open>PlaybackEngine (PlaybackEngine.ts)\<close>

datatype PlaybackState = Stopped | Playing | Paused

text \<open>
  The fields of the class, with \<open>scheduleInterval\<close> reduced to whether a timer handle is
  held (\<open>True\<close>) or the field is \<open>null\<close>, and \<open>onCompleteCallback\<close> to whether a callback
  is registered. Two more fields record what the engine does to the outside: \<open>played\<close> is
  the list of \<open>playNote(note, startTime)\<close> calls in order (a start time \<open>None\<close> is not a
  finite number), \<open>completed\<close> counts the calls of the completion callback. The calls
  that \<open>playNote\<close> makes on the audio context, and the callback itself, are taken to
  return.
\<close>

record Engine =
  state :: PlaybackState
  currentPattern :: "Pattern option"
  currentSong :: "Song option"
  patternMap :: "string \<rightharpoonup> Pattern"
  bpm :: rat
  currentStep :: int
  startTime :: rat
  pauseTime :: rat
  scheduleInterval :: bool
  totalLoops :: int
  currentLoop :: int
  onCompleteCallback :: bool
  played :: "(Note \<times> rat option) list"
  completed :: nat

definition newEngine :: Engine where
  "newEngine = \<lparr>state = Stopped, currentPattern = None, currentSong = None,
                 patternMap = Map.empty, bpm = 120, currentStep = 0, startTime = 0,
                 pauseTime = 0, scheduleInterval = False, totalLoops = 1, currentLoop = 0,
                 onCompleteCallback = False, played = [], completed = 0\<rparr>"

text \<open>
  How a call ends: it returns (\<open>Normal\<close>) or throws (\<open>Threw\<close>); in both cases the fields
  keep what was assigned until then. A call that never returns has no outcome at all
  (\<open>None\<close> below).
\<close>

datatype 'a outcome = Normal 'a | Threw error 'a

fun outcomeState :: "'a outcome \<Rightarrow> 'a" where
  "outcomeState (Normal s) = s"
| "outcomeState (Threw _ s) = s"

definition SCHEDULE_AHEAD_TIME :: rat where
  "SCHEDULE_AHEAD_TIME = 1 / 10"

text \<open>
  \<open>getStepDuration\<close> is \<open>(60 / bpm) / 4\<close>. For \<open>bpm = 0\<close> the program computes
  \<open>Infinity\<close>, which is \<open>None\<close> here (HOL would give \<open>60 / 0 = 0\<close>).
\<close>

definition getStepDuration :: "Engine \<Rightarrow> rat option" where
  "getStepDuration e = (if bpm e = 0 then None else Some ((60 / bpm e) / 4))"

definition getNextNoteTime :: "Engine \<Rightarrow> rat option" where
  "getNextNoteTime e =
     (case getStepDuration e of
        None \<Rightarrow> None
      | Some d \<Rightarrow> Some (startTime e + of_int (currentStep e) * d))"

text \<open>
  The loop test \<open>getNextNoteTime() < scheduleUntil\<close>. With an infinite step duration the
  left side is \<open>NaN\<close> for step 0, \<open>Infinity\<close> for a positive and \<open>-Infinity\<close> for a negative
  step, and only the last is below a finite bound.
\<close>

definition nextNoteDue :: "Engine \<Rightarrow> rat \<Rightarrow> bool" where
  "nextNoteDue e scheduleUntil =
     (case getNextNoteTime e of
        None \<Rightarrow> currentStep e < 0
      | Some t \<Rightarrow> t < scheduleUntil)"

definition stop :: "Engine \<Rightarrow> Engine" where
  "stop e = e\<lparr>scheduleInterval := False, state := Stopped, currentStep := 0,
              currentLoop := 0, currentPattern := None, currentSong := None,
              patternMap := Map.empty\<rparr>"

definition handleSongAdvance :: "Engine \<Rightarrow> Engine" where
  "handleSongAdvance e =
     (case currentSong e of
        None \<Rightarrow> e
      | Some _ \<Rightarrow>
          (let e1 = e\<lparr>currentLoop := currentLoop e + 1\<rparr>
           in if currentLoop e1 \<ge> totalLoops e1
              then (let e2 = stop e1
                    in if onCompleteCallback e2 then e2\<lparr>completed := completed e2 + 1\<rparr>
                       else e2)
              else e1))"

text \<open>The \<open>forEach\<close> over the notes of a step, each handed to \<open>playNote\<close> with the step's time.\<close>

definition playNotes :: "Step \<Rightarrow> rat option \<Rightarrow> Engine \<Rightarrow> Engine" where
  "playNotes step noteTime e =
     (if \<not> Step_isEmpty step
      then e\<lparr>played := played e @ map (\<lambda>n. (n, noteTime)) (step_notes step)\<rparr>
      else e)"

text \<open>What follows the notes of a step: the step counter and the pattern boundary.\<close>

definition advanceStep :: "Pattern \<Rightarrow> Engine \<Rightarrow> Engine" where
  "advanceStep p e =
     (let e1 = e\<lparr>currentStep := currentStep e + 1\<rparr>
      in if currentStep e1 \<ge> stepCount p
         then (let e2 = e1\<lparr>currentStep := 0\<rparr>
               in case currentSong e2 of
                    Some _ \<Rightarrow> handleSongAdvance e2
                  | None \<Rightarrow> e2\<lparr>currentLoop := currentLoop e2 + 1\<rparr>)
         else e1)"

text \<open>
  The \<open>while\<close> loop of \<open>scheduleNotes\<close>. \<open>this.currentPattern\<close> is read anew in every
  pass, so a pass after \<open>stop()\<close> has set it to \<open>null\<close> throws; so does a pass whose step is
  \<open>undefined\<close>. The loop has no other exit than its test.
\<close>

partial_function (option) scheduleLoop :: "rat \<Rightarrow> Engine \<Rightarrow> Engine outcome option" where
  "scheduleLoop scheduleUntil e =
     (if \<not> nextNoteDue e scheduleUntil then Some (Normal e)
      else case currentPattern e of
             None \<Rightarrow> Some (Threw TypeError e)
           | Some p \<Rightarrow>
               (case getStep p (currentStep e) of
                  Inl err \<Rightarrow> Some (Threw err e)
                | Inr None \<Rightarrow> Some (Threw TypeError e)
                | Inr (Some step) \<Rightarrow>
                    scheduleLoop scheduleUntil
                      (advanceStep p (playNotes step (getNextNoteTime e) e))))"

text \<open>\<open>now\<close> is the reading of \<open>audioContext.currentTime\<close> during the call.\<close>

definition scheduleNotes :: "rat \<Rightarrow> Engine \<Rightarrow> Engine outcome option" where
  "scheduleNotes now e =
     (case currentPattern e of
        None \<Rightarrow> Some (Normal e)
      | Some _ \<Rightarrow> scheduleLoop (now + SCHEDULE_AHEAD_TIME) e)"

definition schedulePlayback :: "rat \<Rightarrow> Engine \<Rightarrow> Engine outcome option" where
  "schedulePlayback now e =
     (if scheduleInterval e then Some (Normal e)
      else scheduleNotes now (e\<lparr>scheduleInterval := True\<rparr>))"

text \<open>The callback given to \<open>setInterval\<close>: one scheduling tick.\<close>

definition tick :: "rat \<Rightarrow> Engine \<Rightarrow> Engine outcome option" where
  "tick now e =
     (if state e \<noteq> Playing \<or> currentPattern e = None then Some (Normal e)
      else scheduleNotes now e)"

definition start :: "rat \<Rightarrow> Pattern \<Rightarrow> rat \<Rightarrow> Engine \<Rightarrow> Engine outcome option" where
  "start now pattern b e =
     (if state e = Playing then Some (Normal e)
      else schedulePlayback now
             (e\<lparr>currentPattern := Some pattern, bpm := b, currentStep := 0,
                currentLoop := 0, totalLoops := 1, startTime := now, state := Playing\<rparr>))"

text \<open>\<open>patterns.forEach(p => this.patternMap.set(p.id, p))\<close> on the cleared map.\<close>

definition buildPatternMap :: "Pattern list \<Rightarrow> (string \<rightharpoonup> Pattern)" where
  "buildPatternMap ps = foldl (\<lambda>m p. m(pat_id p \<mapsto> p)) Map.empty ps"

definition startSong :: "rat \<Rightarrow> Song \<Rightarrow> Pattern list \<Rightarrow> Engine \<Rightarrow> Engine outcome option" where
  "startSong now song patterns e =
     (if state e = Playing then Some (Normal e)
      else (let e1 = e\<lparr>currentSong := Some song, bpm := song_bpm song,
                        totalLoops := repeatCount song, currentLoop := 0, currentStep := 0,
                        startTime := now, state := Playing,
                        patternMap := buildPatternMap patterns\<rparr>;
                e2 = (case patternSequence song of
                        [] \<Rightarrow> e1
                      | first # _ \<Rightarrow> e1\<lparr>currentPattern := patternMap e1 (patternId first)\<rparr>)
            in schedulePlayback now e2))"

definition pause :: "rat \<Rightarrow> Engine \<Rightarrow> Engine" where
  "pause now e =
     (if state e \<noteq> Playing then e
      else e\<lparr>scheduleInterval := False, pauseTime := now, state := Paused\<rparr>)"

definition resume :: "rat \<Rightarrow> Engine \<Rightarrow> Engine outcome option" where
  "resume now e =
     (if state e \<noteq> Paused then Some (Normal e)
      else (let pauseDuration = now - pauseTime e
            in schedulePlayback now
                 (e\<lparr>startTime := startTime e + pauseDuration, state := Playing\<rparr>)))"

definition updatePattern :: "Pattern \<Rightarrow> Engine \<Rightarrow> Engine" where
  "updatePattern pattern e =
     (let e1 = e\<lparr>currentPattern := Some pattern\<rparr>
      in if currentSong e1 \<noteq> None \<and> patternMap e1 (pat_id pattern) \<noteq> None
         then e1\<lparr>patternMap := (patternMap e1)(pat_id pattern \<mapsto> pattern)\<rparr>
         else e1)"

definition onComplete :: "Engine \<Rightarrow> Engine" where
  "onComplete e = e\<lparr>onCompleteCallback := True\<rparr>"

text \<open>
  A session is a list of calls made on one engine, each with the clock reading at its
  time. A call that throws ends the session with that outcome.
\<close>

datatype call =
    Start rat Pattern rat
  | StartSong rat Song "Pattern list"
  | Stop
  | Pause rat
  | Resume rat
  | Tick rat
  | UpdatePattern Pattern
  | OnComplete

fun perform :: "call \<Rightarrow> Engine \<Rightarrow> Engine outcome option" where
  "perform (Start now p b) e = start now p b e"
| "perform (StartSong now s ps) e = startSong now s ps e"
| "perform Stop e = Some (Normal (stop e))"
| "perform (Pause now) e = Some (Normal (pause now e))"
| "perform (Resume now) e = resume now e"
| "perform (Tick now) e = tick now e"
| "perform (UpdatePattern p) e = Some (Normal (updatePattern p e))"
| "perform OnComplete e = Some (Normal (onComplete e))"

fun session :: "call list \<Rightarrow> Engine \<Rightarrow> Engine outcome option" where
  "session [] e = Some (Normal e)"
| "session (c # cs) e =
     (case perform c e of
        None \<Rightarrow> None
      | Some (Normal e') \<Rightarrow> session cs e'
      | Some (Threw err e') \<Rightarrow> Some (Threw err e'))"

subsection \<open>AudioExporter (AudioExporter.ts): duration\<close>

text \<open>The exporter's own song type (\<open>domain/models/types\<close>), which is not the class \<open>Song\<close>.\<close>

datatype Waveform = Square | Triangle | Sawtooth | Sine

record ExportNote =
  x_pitch :: "int option"
  x_duration :: rat
  x_volume :: rat

record ExportChannel =
  waveform :: Waveform
  x_steps :: "ExportNote option list"

record ExportPattern =
  x_id :: string
  x_name :: string
  channels :: "ExportChannel list"
  stepsCount :: int

record ExportSong =
  title :: string
  x_bpm :: rat
  patterns :: "ExportPattern list"
  patternOrder :: "string list"
  channelCount :: int
  stepsPerBeat :: rat





subsection \<open>AudioExporter: the WAV file\<close>

datatype BitDepth = Bits8 | Bits16 | Bits24 | Bits32

fun bitsOf :: "BitDepth \<Rightarrow> nat" where
  "bitsOf Bits8 = 8"
| "bitsOf Bits16 = 16"
| "bitsOf Bits24 = 24"
| "bitsOf Bits32 = 32"

datatype AudioChannels = Mono | Stereo

fun channelsOf :: "AudioChannels \<Rightarrow> nat" where
  "channelsOf Mono = 1"
| "channelsOf Stereo = 2"

record AudioExportOptions =
  sampleRate :: nat
  bitDepth :: BitDepth
  audioChannels :: AudioChannels

type_synonym byte = "8 word"

text \<open>
  A \<open>DataView\<close> over an \<open>ArrayBuffer\<close> is the list of its bytes. Every \<open>set...\<close> method
  stores the bytes of its value at the offset, or throws a \<open>RangeError\<close> when they do not
  fit in the buffer.
\<close>

definition putBytes :: "byte list \<Rightarrow> nat \<Rightarrow> byte list \<Rightarrow> error + byte list" where
  "putBytes view offset bs =
     (if offset + length bs \<le> length view
      then Inr (take offset view @ bs @ drop (offset + length bs) view)
      else Inl RangeError)"

text \<open>Little-endian bytes of 16-bit and 32-bit values (the flag \<open>true\<close> of the calls).\<close>

definition le16 :: "16 word \<Rightarrow> byte list" where
  "le16 w = [ucast w, ucast (drop_bit 8 w)]"

definition le32 :: "32 word \<Rightarrow> byte list" where
  "le32 w = [ucast w, ucast (drop_bit 8 w), ucast (drop_bit 16 w), ucast (drop_bit 24 w)]"

definition setUint8 :: "byte list \<Rightarrow> nat \<Rightarrow> int \<Rightarrow> error + byte list" where
  "setUint8 view offset v = putBytes view offset [word_of_int v]"

definition setUint16 :: "byte list \<Rightarrow> nat \<Rightarrow> int \<Rightarrow> error + byte list" where
  "setUint16 view offset v = putBytes view offset (le16 (word_of_int v))"

definition setUint32 :: "byte list \<Rightarrow> nat \<Rightarrow> int \<Rightarrow> error + byte list" where
  "setUint32 view offset v = putBytes view offset (le32 (word_of_int v))"

text \<open>
  \<open>setInt16\<close> and \<open>setInt32\<close> store the two's complement of the value, which for a word
  is the same bytes as the unsigned store of the value modulo the width.
\<close>

definition setInt16 :: "byte list \<Rightarrow> nat \<Rightarrow> int \<Rightarrow> error + byte list" where
  "setInt16 view offset v = putBytes view offset (le16 (word_of_int v))"

definition setInt32 :: "byte list \<Rightarrow> nat \<Rightarrow> int \<Rightarrow> error + byte list" where
  "setInt32 view offset v = putBytes view offset (le32 (word_of_int v))"

definition charCode :: "char \<Rightarrow> int" where
  "charCode c = int (of_char c)"

text \<open>\<open>writeString\<close>: one \<open>setUint8\<close> per character, from the offset on.\<close>

fun writeString :: "byte list \<Rightarrow> nat \<Rightarrow> string \<Rightarrow> error + byte list" where
  "writeString view offset [] = Inr view"
| "writeString view offset (c # cs) =
     andThen (setUint8 view offset (charCode c)) (\<lambda>v. writeString v (offset + 1) cs)"

text \<open>\<open>Math.max(-1, Math.min(1, x))\<close>.\<close>

definition clampSample :: "rat \<Rightarrow> rat" where
  "clampSample x = max (- 1) (min 1 x)"

text \<open>
  The \<open>switch\<close> on the bit depth. The 24-bit case takes the three low bytes of the
  32-bit integer that the bitwise operators of the language work on.
\<close>

fun writeSample :: "BitDepth \<Rightarrow> byte list \<Rightarrow> nat \<Rightarrow> rat \<Rightarrow> error + byte list" where
  "writeSample Bits8 view offset sample =
     setUint8 view offset (\<lfloor>(sample + 1) * (255 / 2)\<rfloor>)"
| "writeSample Bits16 view offset sample =
     setInt16 view offset (\<lfloor>sample * 32767\<rfloor>)"
| "writeSample Bits24 view offset sample =
     (let val24 = (word_of_int \<lfloor>sample * 8388607\<rfloor> :: 32 word)
      in andThen (setUint8 view offset (uint (val24 AND 0xff))) (\<lambda>v1.
         andThen (setUint8 v1 (offset + 1) (uint (signed_drop_bit 8 val24 AND 0xff))) (\<lambda>v2.
                  setUint8 v2 (offset + 2) (uint (signed_drop_bit 16 val24 AND 0xff)))))"
| "writeSample Bits32 view offset sample =
     setInt32 view offset (\<lfloor>sample * 2147483647\<rfloor>)"

text \<open>The loop over the samples, \<open>offset\<close> growing by \<open>bytesPerSample\<close> in each pass.\<close>

fun writeSamples :: "BitDepth \<Rightarrow> nat \<Rightarrow> byte list \<Rightarrow> nat \<Rightarrow> rat list \<Rightarrow> error + byte list" where
  "writeSamples bd bytesPerSample view offset [] = Inr view"
| "writeSamples bd bytesPerSample view offset (x # xs) =
     andThen (writeSample bd view offset (clampSample x))
       (\<lambda>v. writeSamples bd bytesPerSample v (offset + bytesPerSample) xs)"

definition createWavFile :: "rat list \<Rightarrow> AudioExportOptions \<Rightarrow> error + byte list" where
  "createWavFile samples options =
     (let bytesPerSample = bitsOf (bitDepth options) div 8;
          dataSize = length samples * bytesPerSample;
          fileSize = 44 + dataSize;
          view0 = replicate fileSize (0 :: byte)
      in andThen (writeString view0 0 ''RIFF'') (\<lambda>v.
         andThen (setUint32 v 4 (int fileSize - 8)) (\<lambda>v.
         andThen (writeString v 8 ''WAVE'') (\<lambda>v.
         andThen (writeString v 12 ''fmt '') (\<lambda>v.
         andThen (setUint32 v 16 16) (\<lambda>v.
         andThen (setUint16 v 20 1) (\<lambda>v.
         andThen (setUint16 v 22 (int (channelsOf (audioChannels options)))) (\<lambda>v.
         andThen (setUint32 v 24 (int (sampleRate options))) (\<lambda>v.
         andThen (setUint32 v 28
                    (int (sampleRate options * channelsOf (audioChannels options)
                          * bytesPerSample))) (\<lambda>v.
         andThen (setUint16 v 32 (int (channelsOf (audioChannels options) * bytesPerSample))) (\<lambda>v.
         andThen (setUint16 v 34 (int (bitsOf (bitDepth options)))) (\<lambda>v.
         andThen (writeString v 36 ''data'') (\<lambda>v.
         andThen (setUint32 v 40 (int dataSize)) (\<lambda>v.
                  writeSamples (bitDepth options) bytesPerSample v 44 samples))))))))))))))"

text \<open>Reading the file back, as \<open>getUint16(offset, true)\<close> and \<open>getUint32(offset, true)\<close> do.\<close>

definition getUint16 :: "byte list \<Rightarrow> nat \<Rightarrow> 16 word" where
  "getUint16 view offset =
     ucast (view ! offset) OR push_bit 8 (ucast (view ! (offset + 1)))"

definition getUint32 :: "byte list \<Rightarrow> nat \<Rightarrow> 32 word" where
  "getUint32 view offset =
     ucast (view ! offset) OR push_bit 8 (ucast (view ! (offset + 1)))
     OR push_bit 16 (ucast (view ! (offset + 2))) OR push_bit 24 (ucast (view ! (offset + 3)))"

definition asciiBytes :: "string \<Rightarrow> byte list" where
  "asciiBytes s = map (\<lambda>c. word_of_int (charCode c)) s"

subsection \<open>Concrete inputs\<close>

text \<open>The notes and the pattern of the fixture in \<open>PlaybackEngine.spec.ts\<close>.\<close>

definition noteC4 :: Note where
  "noteC4 = \<lparr>pitch = ''C4'', duration = 1, channel = 0\<rparr>"

definition noteE4 :: Note where
  "noteE4 = \<lparr>pitch = ''E4'', duration = 1, channel = 1\<rparr>"

definition noteD4 :: Note where
  "noteD4 = \<lparr>pitch = ''D4'', duration = 4 / 5, channel = 0\<rparr>"

definition testPattern :: Pattern where
  "testPattern = \<lparr>pat_id = ''pattern-1'', pat_name = ''Test Pattern'', stepCount = 16,
                   steps = [\<lparr>position = 0, step_notes = [noteC4]\<rparr>,
                            \<lparr>position = 4, step_notes = [noteE4]\<rparr>]\<rparr>"

text \<open>A two-step pattern: fresh, with one note, and with two notes added to step 0.\<close>

definition twoSteps :: "Note list \<Rightarrow> Pattern" where
  "twoSteps ns = \<lparr>pat_id = ''p1'', pat_name = ''Test'', stepCount = 2,
                  steps = [\<lparr>position = 0, step_notes = ns\<rparr>,
                           \<lparr>position = 1, step_notes = []\<rparr>]\<rparr>"

text \<open>A fresh pattern of 16 steps and one of a single step, both without notes.\<close>

definition pattern16 :: Pattern where
  "pattern16 = \<lparr>pat_id = ''p1'', pat_name = ''Test'', stepCount = 16, steps = emptySteps 16\<rparr>"

definition pattern1 :: Pattern where
  "pattern1 = \<lparr>pat_id = ''p1'', pat_name = ''Test'', stepCount = 1, steps = emptySteps 1\<rparr>"

text \<open>The engine after \<open>start(pattern16, 120)\<close> at time 0: step 0 is scheduled.\<close>

definition playing16 :: Engine where
  "playing16 = newEngine\<lparr>state := Playing, currentPattern := Some pattern16,
                          currentStep := 1, scheduleInterval := True\<rparr>"

text \<open>
  The standalone pattern is complete and every one of its steps is due before
  \<open>scheduleUntil\<close>: the state in which the look-ahead loop wraps around without leaving
  the window.
\<close>

definition allStepsDue :: "rat \<Rightarrow> Engine \<Rightarrow> bool" where
  "allStepsDue scheduleUntil e =
     (case currentPattern e of
        None \<Rightarrow> False
      | Some p \<Rightarrow>
          currentSong e = None \<and> int (length (steps p)) = stepCount p
          \<and> 0 \<le> currentStep e \<and> currentStep e < stepCount p \<and> 0 < bpm e
          \<and> startTime e + of_int (stepCount p - 1) * ((60 / bpm e) / 4) < scheduleUntil)"

text \<open>A song of two patterns of two steps, each with one note on its first step.\<close>

definition patternA :: Pattern where
  "patternA = \<lparr>pat_id = ''A'', pat_name = ''First'', stepCount = 2,
                steps = [\<lparr>position = 0, step_notes = [noteC4]\<rparr>,
                         \<lparr>position = 1, step_notes = []\<rparr>]\<rparr>"

definition patternB :: Pattern where
  "patternB = \<lparr>pat_id = ''B'', pat_name = ''Second'', stepCount = 2,
                steps = [\<lparr>position = 0, step_notes = [noteE4]\<rparr>,
                         \<lparr>position = 1, step_notes = []\<rparr>]\<rparr>"

definition songAB :: Song where
  "songAB = \<lparr>song_id = ''s1'', song_name = ''Two patterns'', song_bpm = 120, repeatCount = 1,
              patternSequence = [\<lparr>patternId = ''A'', repeat = 1\<rparr>,
                                 \<lparr>patternId = ''B'', repeat = 1\<rparr>]\<rparr>"





text \<open>
  The engine after \<open>onComplete(cb)\<close> and \<open>startSong(songAB, [patternA, patternB])\<close> at
  time 0.
\<close>

definition playingAB :: Engine where
  "playingAB = newEngine\<lparr>onCompleteCallback := True, currentSong := Some songAB,
       state := Playing, patternMap := [''A'' \<mapsto> patternA, ''B'' \<mapsto> patternB],
       currentPattern := Some patternA, scheduleInterval := True, currentStep := 1,
       played := [(noteC4, Some 0)]\<rparr>"

text \<open>
  The bytes that \<open>writeSample\<close> stores for a (clamped) sample, and the 44 bytes of the
  header for a data chunk of \<open>dataSize\<close> bytes, in the order of the writes.
\<close>

definition sampleBytes :: "BitDepth \<Rightarrow> rat \<Rightarrow> byte list" where
  "sampleBytes bd sample =
     (case bd of
        Bits8 \<Rightarrow> [word_of_int \<lfloor>(sample + 1) * (255 / 2)\<rfloor>]
      | Bits16 \<Rightarrow> le16 (word_of_int \<lfloor>sample * 32767\<rfloor>)
      | Bits24 \<Rightarrow> take 3 (le32 (word_of_int \<lfloor>sample * 8388607\<rfloor>))
      | Bits32 \<Rightarrow> le32 (word_of_int \<lfloor>sample * 2147483647\<rfloor>))"

definition wavHeader :: "nat \<Rightarrow> AudioExportOptions \<Rightarrow> byte list" where
  "wavHeader dataSize options =
     asciiBytes ''RIFF'' @ le32 (word_of_nat (36 + dataSize)) @ asciiBytes ''WAVE''
     @ asciiBytes ''fmt '' @ le32 16 @ le16 1
     @ le16 (word_of_nat (channelsOf (audioChannels options)))
     @ le32 (word_of_nat (sampleRate options))
     @ le32 (word_of_nat (sampleRate options * channelsOf (audioChannels options)
                          * (bitsOf (bitDepth options) div 8)))
     @ le16 (word_of_nat (channelsOf (audioChannels options) * (bitsOf (bitDepth options) div 8)))
     @ le16 (word_of_nat (bitsOf (bitDepth options)))
     @ asciiBytes ''data'' @ le32 (word_of_nat dataSize)"

text \<open>
  The options of the header test, and the file for the three samples 0, 1/2 and -2.
\<close>

definition cdOptions :: AudioExportOptions where
  "cdOptions = \<lparr>sampleRate = 44100, bitDepth = Bits16, audioChannels = Stereo\<rparr>"

definition wavBytes :: "byte list" where
  "wavBytes = [82, 73, 70, 70, 42, 0, 0, 0, 87, 65, 86, 69, 102, 109, 116, 32, 16, 0, 0, 0,
          1, 0, 2, 0, 68, 172, 0, 0, 16, 177, 2, 0, 4, 0, 16, 0, 100, 97, 116, 97,
          6, 0, 0, 0, 0, 0, 255, 63, 1, 128]"





section \<open>Properties\<close>

subsection \<open>Sequencing and fresh patterns\<close>

lemma andThen_Inr [simp]: "andThen (Inr x) f = f x"
  by (simp add: andThen_def)

lemma andThen_Inl [simp]: "andThen (Inl e) f = Inl e"
  by (simp add: andThen_def)

lemma andThen_eq_Inr:
  "andThen r f = Inr y \<longleftrightarrow> (\<exists>x. r = Inr x \<and> f x = Inr y)"
  by (cases r) simp_all

lemma length_emptySteps [simp]: "length (emptySteps n) = nat n"
  by (simp add: emptySteps_def)

lemma nth_emptySteps:
  "0 \<le> i \<Longrightarrow> i < n \<Longrightarrow> emptySteps n ! nat i = \<lparr>position = i, step_notes = []\<rparr>"
  by (simp add: emptySteps_def)

lemma oneNotePerChannel_emptySteps: "list_all oneNotePerChannel (emptySteps n)"
  by (simp add: emptySteps_def list_all_iff oneNotePerChannel_def)

text \<open>
  A pattern constructed without a step array does hold \<open>stepCount\<close> steps, the step at
  index \<open>i\<close> with position \<open>i\<close>, and \<open>getStep\<close> returns it.
\<close>

lemma getStep_fresh:
  assumes "Pattern_new i n sc None = Inr p" and "0 \<le> pos" and "pos < stepCount p"
  shows "getStep p pos = Inr (Some \<lparr>position = pos, step_notes = []\<rparr>)"
  using assms
  by (auto simp: Pattern_new_def getStep_def at_index_def nth_emptySteps split: if_splits)

lemma list_all_update:
  "list_all P xs \<Longrightarrow> P x \<Longrightarrow> list_all P (xs[k := x])"
  by (induction xs arbitrary: k) (auto split: nat.splits)

lemma replaced_distinct:
  assumes "distinct (map channel ns)" and "channel n = c"
  shows "distinct (map channel (filter (\<lambda>m. channel m \<noteq> c) ns @ [n]))"
  using assms by (auto simp: distinct_map_filter)

lemma replaced_find:
  assumes "channel n = c"
  shows "find (\<lambda>m. channel m = c) (filter (\<lambda>m. channel m \<noteq> c) ns @ [n]) = Some n"
  using assms by (induction ns) auto

lemmas domain_defs =
  Pattern_new_def Step_new_def Step_addNote_def Note_new_def removeNoteAtChannel_def
  getStep_def getAllSteps_def at_index_def defined_def blank_def isSpace_def
  validateChannelIndex_def validateStepIndex_def

subsection \<open>C4: one note per channel in a step\<close>

text \<open>
  C4, as the claim states it, fails: \<open>Step.addNote\<close> appends the note whatever its
  channel, and \<open>Pattern.addNoteAtStep\<close> calls it. Two notes on channel 0 added to step 0 of
  a fresh pattern are both kept, and the lookup by channel still finds the first one.
\<close>

theorem addNoteAtStep_keeps_both_notes:
  "Pattern_new ''p1'' ''Test'' 2 None = Inr (twoSteps [])
   \<and> addNoteAtStep (twoSteps []) 0 noteC4 = Inr (twoSteps [noteC4])
   \<and> addNoteAtStep (twoSteps [noteC4]) 0 noteD4 = Inr (twoSteps [noteC4, noteD4])
   \<and> channel noteC4 = channel noteD4
   \<and> \<not> patternOneNotePerChannel (twoSteps [noteC4, noteD4])
   \<and> getNoteForChannel \<lparr>position = 0, step_notes = [noteC4, noteD4]\<rparr> 0 = Some noteC4"
  by (simp add: domain_defs addNoteAtStep_def twoSteps_def emptySteps_def upto.simps
        noteC4_def noteD4_def patternOneNotePerChannel_def oneNotePerChannel_def
        getNoteForChannel_def)

text \<open>
  C4, amended: the replacement is made by \<open>PatternEditor.addNote\<close>, which removes the note
  on the target channel before it adds the new one. A pattern constructed without a step
  array has no step with two notes on one channel; and when the editor's pattern has no
  such step, then after a call of \<open>PatternEditor.addNote\<close> that returns, the new pattern
  has none either, and the edited step holds the new note on that channel.
\<close>

theorem PatternEditor_addNote_replaces:
  "(Pattern_new i n sc None = Inr p \<longrightarrow> patternOneNotePerChannel p) \<and>
   (patternOneNotePerChannel (ed_currentPattern ed) \<and>
    PatternEditor_addNote ed stepIndex channelIndex note = Inr ed' \<longrightarrow>
      patternOneNotePerChannel (ed_currentPattern ed') \<and>
      (\<exists>st. getStep (ed_currentPattern ed') stepIndex = Inr (Some st) \<and>
            getNoteForChannel st channelIndex =
              Some \<lparr>pitch = pitch note, duration = duration note, channel = channelIndex\<rparr>))"
proof (rule conjI)
  show "Pattern_new i n sc None = Inr p \<longrightarrow> patternOneNotePerChannel p"
    by (auto simp: Pattern_new_def patternOneNotePerChannel_def oneNotePerChannel_emptySteps
             split: if_splits)
next
  show "patternOneNotePerChannel (ed_currentPattern ed) \<and>
    PatternEditor_addNote ed stepIndex channelIndex note = Inr ed' \<longrightarrow>
      patternOneNotePerChannel (ed_currentPattern ed') \<and>
      (\<exists>st. getStep (ed_currentPattern ed') stepIndex = Inr (Some st) \<and>
            getNoteForChannel st channelIndex =
              Some \<lparr>pitch = pitch note, duration = duration note, channel = channelIndex\<rparr>)"
  proof (rule impI)
    assume a: "patternOneNotePerChannel (ed_currentPattern ed) \<and>
      PatternEditor_addNote ed stepIndex channelIndex note = Inr ed'"
    let ?p = "ed_currentPattern ed"
    let ?n = "\<lparr>pitch = pitch note, duration = duration note, channel = channelIndex\<rparr>"
    from a have inv: "list_all oneNotePerChannel (steps ?p)"
      by (simp add: patternOneNotePerChannel_def)
    from a obtain step st' p' where
        rng: "0 \<le> stepIndex" "stepIndex < stepCount ?p"
      and got: "at_index (steps ?p) stepIndex = Some step"
      and st': "st' = \<lparr>position = position step,
                       step_notes = filter (\<lambda>m. channel m \<noteq> channelIndex) (step_notes step) @ [?n]\<rparr>"
      and p': "p' = \<lparr>pat_id = pat_id ?p, pat_name = pat_name ?p, stepCount = stepCount ?p,
                     steps = (steps ?p)[nat stepIndex := st']\<rparr>"
      and ed': "ed' = ed\<lparr>ed_currentPattern := p'\<rparr>"
      by (auto simp: PatternEditor_addNote_def andThen_eq_Inr validateChannelIndex_def
            validateStepIndex_def Note_new_def getStep_def defined_def removeNoteAtChannel_def
            Step_new_def Step_addNote_def Pattern_new_def getAllSteps_def
            split: if_splits option.splits)
    from got have len: "nat stepIndex < length (steps ?p)"
      and step: "step = steps ?p ! nat stepIndex"
      by (auto simp: at_index_def split: if_splits)
    from inv len step have "oneNotePerChannel step"
      by (simp add: list_all_length)
    then have d: "oneNotePerChannel st'"
      using replaced_distinct [of "step_notes step" ?n channelIndex]
      by (simp add: st' oneNotePerChannel_def)
    show "patternOneNotePerChannel (ed_currentPattern ed') \<and>
        (\<exists>st. getStep (ed_currentPattern ed') stepIndex = Inr (Some st) \<and>
              getNoteForChannel st channelIndex = Some ?n)"
    proof
      show "patternOneNotePerChannel (ed_currentPattern ed')"
        using inv d by (simp add: ed' p' patternOneNotePerChannel_def list_all_update)
      have "getStep (ed_currentPattern ed') stepIndex = Inr (Some st')"
        using rng len by (simp add: ed' p' getStep_def at_index_def)
      moreover have "getNoteForChannel st' channelIndex = Some ?n"
        by (simp add: st' getNoteForChannel_def replaced_find)
      ultimately show "\<exists>st. getStep (ed_currentPattern ed') stepIndex = Inr (Some st) \<and>
              getNoteForChannel st channelIndex = Some ?n"
        by blast
    qed
  qed
qed

text \<open>
  The same two notes through the editor: the second call replaces the first note, as the
  test "should replace existing note at the same position" expects.
\<close>

theorem PatternEditor_addNote_replaces_witness:
  "Pattern_new ''p1'' ''Test'' 2 None = Inr (twoSteps [])
   \<and> patternOneNotePerChannel (twoSteps [])
   \<and> patternOneNotePerChannel (twoSteps [noteC4])
   \<and> PatternEditor_addNote \<lparr>ed_currentPattern = twoSteps [noteC4], ed_maxChannels = 4\<rparr> 0 0 noteD4
       = Inr \<lparr>ed_currentPattern = twoSteps [noteD4], ed_maxChannels = 4\<rparr>
   \<and> patternOneNotePerChannel (twoSteps [noteD4])
   \<and> (\<exists>st. getStep (twoSteps [noteD4]) 0 = Inr (Some st)
            \<and> getNoteForChannel st 0 = Some noteD4)"
proof -
  have fresh: "Pattern_new ''p1'' ''Test'' 2 None = Inr (twoSteps [])"
    by (simp add: domain_defs twoSteps_def emptySteps_def upto.simps)
  have inv: "patternOneNotePerChannel (twoSteps [noteC4])"
    by (simp add: twoSteps_def patternOneNotePerChannel_def oneNotePerChannel_def)
  have run: "PatternEditor_addNote
               \<lparr>ed_currentPattern = twoSteps [noteC4], ed_maxChannels = 4\<rparr> 0 0 noteD4
             = Inr \<lparr>ed_currentPattern = twoSteps [noteD4], ed_maxChannels = 4\<rparr>"
    by (simp add: PatternEditor_addNote_def domain_defs twoSteps_def noteC4_def noteD4_def)
  show ?thesis
    using fresh inv run
      PatternEditor_addNote_replaces [of "''p1''" "''Test''" 2 "twoSteps []"
        "\<lparr>ed_currentPattern = twoSteps [noteC4], ed_maxChannels = 4\<rparr>" 0 0 noteD4
        "\<lparr>ed_currentPattern = twoSteps [noteD4], ed_maxChannels = 4\<rparr>"]
    by (simp add: noteD4_def)
qed

subsection \<open>C5: the steps of a pattern\<close>

text \<open>
  C5 at the pattern of the playback test fixture, \<open>new Pattern('pattern-1', 'Test Pattern',
  16, [step0, step4])\<close>: the constructor accepts the two-element array for a step count of
  16, position 2 passes the range check of \<open>getStep\<close>, and what \<open>getStep(2)\<close> returns is
  \<open>undefined\<close>; index 1 holds the step whose position is 4.
\<close>

theorem getStep_undefined_in_range:
  "Pattern_new ''pattern-1'' ''Test Pattern'' 16
     (Some [\<lparr>position = 0, step_notes = [noteC4]\<rparr>, \<lparr>position = 4, step_notes = [noteE4]\<rparr>])
     = Inr testPattern
   \<and> getStep testPattern 2 = Inr None
   \<and> getStep testPattern 1 = Inr (Some \<lparr>position = 4, step_notes = [noteE4]\<rparr>)"
  by (simp add: domain_defs testPattern_def)

text \<open>The read at position 2 of the fixture's pattern, taken from the theorem.\<close>

theorem getStep_undefined_in_range_witness:
  "getStep testPattern 2 = Inr None"
  using getStep_undefined_in_range by blast

subsection \<open>The look-ahead loop\<close>

lemma handleSongAdvance_no_song [simp]:
  "currentSong e = None \<Longrightarrow> handleSongAdvance e = e"
  by (simp add: handleSongAdvance_def)

lemma allStepsDue_due:
  assumes "allStepsDue u e"
  shows "nextNoteDue e u"
proof -
  from assms obtain p where p: "currentPattern e = Some p"
    and b: "0 < bpm e" and r: "currentStep e < stepCount p"
    and d: "startTime e + of_int (stepCount p - 1) * ((60 / bpm e) / 4) < u"
    by (auto simp: allStepsDue_def split: option.splits)
  have "of_int (currentStep e) * ((60 / bpm e) / 4)
          \<le> of_int (stepCount p - 1) * ((60 / bpm e) / 4)"
    using b r by (intro mult_right_mono) auto
  with d b show ?thesis
    by (simp add: nextNoteDue_def getNextNoteTime_def getStepDuration_def)
qed

text \<open>One pass of the loop leads from such a state to such a state.\<close>

lemma allStepsDue_step:
  assumes "allStepsDue u e" and "currentPattern e = Some p"
  shows "\<exists>step. getStep p (currentStep e) = Inr (Some step)
          \<and> allStepsDue u (advanceStep p (playNotes step t e))"
  using assms
  by (auto simp: allStepsDue_def getStep_def at_index_def advanceStep_def playNotes_def Let_def)

lemma scheduleLoop_returns_not_allStepsDue:
  assumes ret: "scheduleLoop u0 e0 = Some r0"
  shows "\<not> allStepsDue u0 e0"
proof (rule scheduleLoop.raw_induct [OF _ ret], goal_cases)
  case (1 loop u e r)
  show ?case
  proof
    assume a: "allStepsDue u e"
    then obtain p where p: "currentPattern e = Some p"
      by (auto simp: allStepsDue_def split: option.splits)
    from allStepsDue_step [OF a p, of "getNextNoteTime e"] obtain step where
      s: "getStep p (currentStep e) = Inr (Some step)"
      and n: "allStepsDue u (advanceStep p (playNotes step (getNextNoteTime e) e))"
      by blast
    from "1"(2) allStepsDue_due [OF a] p s
    have "loop u (advanceStep p (playNotes step (getNextNoteTime e) e)) = Some r"
      by simp
    from "1"(1) [OF this] n show False by contradiction
  qed
qed

text \<open>
  Whenever the last step of a complete standalone pattern is due within the window, the
  loop does not return: after the wrap the next note time is \<open>startTime\<close> again.
\<close>

lemma scheduleLoop_diverges: "allStepsDue u e \<Longrightarrow> scheduleLoop u e = None"
  using scheduleLoop_returns_not_allStepsDue [of u e] by (cases "scheduleLoop u e") auto

subsection \<open>C1: the iterations of one scheduling tick\<close>

text \<open>
  C1 at \<open>engine.start(new Pattern('p1', 'Test', 16), 120)\<close> with the clock at 0, followed
  by a timer tick with the clock at 2: \<open>start\<close> returns with step 0 scheduled; in the tick
  all of the steps 1 to 15 are due before 2.1, the step counter wraps to 0 with
  \<open>startTime\<close> still 0, and \<open>scheduleNotes\<close> never returns. With a pattern of one step the
  call of \<open>start\<close> itself does not return. The loop has no iteration bound.
\<close>

theorem scheduleNotes_never_returns:
  "Pattern_new ''p1'' ''Test'' 16 None = Inr pattern16
   \<and> start 0 pattern16 120 newEngine = Some (Normal playing16)
   \<and> tick 2 playing16 = None
   \<and> Pattern_new ''p1'' ''Test'' 1 None = Inr pattern1
   \<and> start 0 pattern1 120 newEngine = None"
proof -
  have p16: "Pattern_new ''p1'' ''Test'' 16 None = Inr pattern16"
    by (simp add: domain_defs pattern16_def)
  have p1: "Pattern_new ''p1'' ''Test'' 1 None = Inr pattern1"
    by (simp add: domain_defs pattern1_def)
  have s16: "start 0 pattern16 120 newEngine = Some (Normal playing16)"
    apply (simp add: start_def schedulePlayback_def scheduleNotes_def newEngine_def
             pattern16_def SCHEDULE_AHEAD_TIME_def)
    apply (subst scheduleLoop.simps)
    apply (simp add: nextNoteDue_def getNextNoteTime_def getStepDuration_def getStep_def
             at_index_def nth_emptySteps [of 0 16, simplified] advanceStep_def playNotes_def
             Step_isEmpty_def)
    apply (subst scheduleLoop.simps)
    apply (simp add: nextNoteDue_def getNextNoteTime_def getStepDuration_def playing16_def
             newEngine_def pattern16_def)
    done
  have t16: "tick 2 playing16 = None"
    apply (simp add: tick_def playing16_def scheduleNotes_def newEngine_def)
    apply (rule scheduleLoop_diverges)
    apply (simp add: allStepsDue_def pattern16_def SCHEDULE_AHEAD_TIME_def)
    done
  have s1: "start 0 pattern1 120 newEngine = None"
    apply (simp add: start_def schedulePlayback_def scheduleNotes_def newEngine_def)
    apply (rule scheduleLoop_diverges)
    apply (simp add: allStepsDue_def pattern1_def SCHEDULE_AHEAD_TIME_def)
    done
  from p16 p1 s16 t16 s1 show ?thesis by simp
qed

text \<open>The tick at time 2 on the engine that \<open>start\<close> left, taken from the theorem.\<close>

theorem scheduleNotes_never_returns_witness:
  "start 0 pattern16 120 newEngine = Some (Normal playing16) \<and> tick 2 playing16 = None"
  using scheduleNotes_never_returns by blast

subsection \<open>What the loop leaves alone\<close>

lemma playNotes_fields [simp]:
  "startTime (playNotes st t e) = startTime e"
  "bpm (playNotes st t e) = bpm e"
  "state (playNotes st t e) = state e"
  "currentStep (playNotes st t e) = currentStep e"
  "currentSong (playNotes st t e) = currentSong e"
  "currentPattern (playNotes st t e) = currentPattern e"
  by (simp_all add: playNotes_def)

lemma advanceStep_fields [simp]:
  "startTime (advanceStep p e) = startTime e"
  "bpm (advanceStep p e) = bpm e"
  by (simp_all add: advanceStep_def handleSongAdvance_def stop_def Let_def split: option.splits)











lemma stepCount_pattern16 [simp]: "stepCount pattern16 = 16"
  by (simp add: pattern16_def)

lemmas loop_defs =
  nextNoteDue_def getNextNoteTime_def getStepDuration_def advanceStep_def playNotes_def
  Step_isEmpty_def handleSongAdvance_def stop_def


subsection \<open>C7: stop\<close>

text \<open>
  C7: \<open>stop()\<close> has no failing path (it is a total function of the engine state, and
  as a call of a session it returns normally); after it the state is \<open>Stopped\<close>, the
  current step is 0 and the pattern lookup table is empty; and a second \<open>stop()\<close> changes
  nothing.
\<close>

theorem stop_idempotent:
  "stop (stop e) = stop e \<and> state (stop e) = Stopped \<and> currentStep (stop e) = 0
   \<and> patternMap (stop e) = Map.empty
   \<and> session [Stop] e = Some (Normal (stop e))
   \<and> session [Stop, Stop] e = session [Stop] e"
  by (simp add: stop_def)

text \<open>\<open>stop()\<close> on the playing engine \<open>playing16\<close>, once and twice.\<close>

theorem stop_idempotent_witness:
  "stop (stop playing16) = stop playing16 \<and> state (stop playing16) = Stopped
   \<and> currentStep (stop playing16) = 0 \<and> patternMap (stop playing16) = Map.empty"
  using stop_idempotent [of playing16] by blast

subsection \<open>C10: start on a paused engine\<close>



subsection \<open>C6: pause and resume\<close>




subsection \<open>C3: startSong and invalid songs\<close>




subsection \<open>C2: the pattern sequence of a song\<close>

text \<open>
  No pass of the loop assigns another pattern: the current pattern stays or becomes
  \<open>null\<close>.
\<close>

lemma advanceStep_currentPattern:
  "currentPattern (advanceStep p e) = currentPattern e \<or> currentPattern (advanceStep p e) = None"
  by (simp add: advanceStep_def handleSongAdvance_def stop_def Let_def split: option.splits)

lemma scheduleLoop_currentPattern:
  assumes ret: "scheduleLoop u0 e0 = Some r0"
  shows "currentPattern (outcomeState r0) = currentPattern e0
         \<or> currentPattern (outcomeState r0) = None"
proof (rule scheduleLoop.raw_induct [OF _ ret], goal_cases)
  case (1 loop u e r)
  show ?case
  proof (cases "\<exists>p step. nextNoteDue e u \<and> currentPattern e = Some p
                   \<and> getStep p (currentStep e) = Inr (Some step)")
    case True
    then obtain p step where d: "nextNoteDue e u" and p: "currentPattern e = Some p"
      and s: "getStep p (currentStep e) = Inr (Some step)" by blast
    let ?e' = "advanceStep p (playNotes step (getNextNoteTime e) e)"
    from "1"(2) d p s have l: "loop u ?e' = Some r" by simp
    from advanceStep_currentPattern [of p "playNotes step (getNextNoteTime e) e"]
    have "currentPattern ?e' = currentPattern e \<or> currentPattern ?e' = None" by simp
    with "1"(1) [OF l] show ?thesis by auto
  next
    case False
    with "1"(2) have "outcomeState r = e"
      by (auto split: if_splits option.splits sum.splits)
    then show ?thesis by simp
  qed
qed

text \<open>
  C2 at a song of the two entries A and B (repeat 1 each) with repeat count 1, started
  at time 0 with a completion callback, followed by a timer tick at time 1. \<open>startSong\<close>
  schedules step 0 of pattern A. The tick schedules step 1 of A; at the wrap
  \<open>handleSongAdvance\<close> counts one loop of the song, which reaches \<open>totalLoops\<close>, so it
  stops the engine and calls the callback; the loop then goes on with \<open>currentPattern\<close>
  \<open>null\<close> and throws. The note of pattern B is never played.
\<close>

theorem startSong_plays_first_pattern_only:
  "Song_new ''s1'' ''Two patterns'' 120 1
     [\<lparr>patternId = ''A'', repeat = 1\<rparr>, \<lparr>patternId = ''B'', repeat = 1\<rparr>] = Inr songAB
   \<and> session [OnComplete, StartSong 0 songAB [patternA, patternB]] newEngine
       = Some (Normal playingAB)
   \<and> tick 1 playingAB
       = Some (Threw TypeError
                (newEngine\<lparr>onCompleteCallback := True, played := [(noteC4, Some 0)],
                           completed := 1\<rparr>))"
proof -
  have sg: "Song_new ''s1'' ''Two patterns'' 120 1
     [\<lparr>patternId = ''A'', repeat = 1\<rparr>, \<lparr>patternId = ''B'', repeat = 1\<rparr>] = Inr songAB"
    by (simp add: Song_new_def blank_def isSpace_def songAB_def)
  have st: "session [OnComplete, StartSong 0 songAB [patternA, patternB]] newEngine
       = Some (Normal playingAB)"
    apply (simp add: onComplete_def startSong_def schedulePlayback_def scheduleNotes_def
             buildPatternMap_def newEngine_def songAB_def SCHEDULE_AHEAD_TIME_def)
    apply (simp add: patternA_def patternB_def)
    apply (subst scheduleLoop.simps)
    apply (simp add: loop_defs getStep_def at_index_def noteC4_def)
    apply (subst scheduleLoop.simps)
    apply (simp add: loop_defs playingAB_def newEngine_def songAB_def patternA_def patternB_def noteC4_def)
    done
  have tk: "tick 1 playingAB
       = Some (Threw TypeError
                (newEngine\<lparr>onCompleteCallback := True, played := [(noteC4, Some 0)],
                           completed := 1\<rparr>))"
    apply (simp add: tick_def playingAB_def scheduleNotes_def newEngine_def SCHEDULE_AHEAD_TIME_def)
    apply (subst scheduleLoop.simps)
    apply (simp add: loop_defs getStep_def at_index_def patternA_def songAB_def)
    apply (subst scheduleLoop.simps)
    apply (simp add: loop_defs)
    done
  from sg st tk show ?thesis by simp
qed

text \<open>The outcome of the tick that ends the song, taken from the theorem.\<close>

theorem startSong_plays_first_pattern_only_witness:
  "tick 1 playingAB
     = Some (Threw TypeError
              (newEngine\<lparr>onCompleteCallback := True, played := [(noteC4, Some 0)],
                         completed := 1\<rparr>))"
  using startSong_plays_first_pattern_only by blast

subsection \<open>Bytes of words\<close>

lemma rd32_le32:
  "(ucast (ucast w :: 8 word) :: 32 word)
   OR push_bit 8 (ucast (ucast (drop_bit 8 w) :: 8 word))
   OR push_bit 16 (ucast (ucast (drop_bit 16 w) :: 8 word))
   OR push_bit 24 (ucast (ucast (drop_bit 24 w) :: 8 word)) = (w :: 32 word)"
proof (rule bit_word_eqI)
  fix n assume "n < LENGTH(32)"
  then have n: "n < 32" by simp
  consider "n < 8" | "8 \<le> n" "n < 16" | "16 \<le> n" "n < 24" | "24 \<le> n" by linarith
  then show "bit ((ucast (ucast w :: 8 word) :: 32 word)
   OR push_bit 8 (ucast (ucast (drop_bit 8 w) :: 8 word))
   OR push_bit 16 (ucast (ucast (drop_bit 16 w) :: 8 word))
   OR push_bit 24 (ucast (ucast (drop_bit 24 w) :: 8 word))) n = bit w n"
    using n by cases (auto simp: bit_simps)
qed

lemma rd16_le16:
  "(ucast (ucast w :: 8 word) :: 16 word)
   OR push_bit 8 (ucast (ucast (drop_bit 8 w) :: 8 word)) = (w :: 16 word)"
  by (rule bit_word_eqI) (auto simp: bit_simps)

lemma ff_mask: "(0xff :: 32 word) = mask 8"
  by (simp add: mask_eq_exp_minus_1)

lemma byte0: "(ucast ((w :: 32 word) AND 0xff) :: 8 word) = ucast w"
  unfolding ff_mask by (rule bit_word_eqI) (auto simp: bit_simps)

lemma byte1: "(ucast (signed_drop_bit 8 (w :: 32 word) AND 0xff) :: 8 word) = ucast (drop_bit 8 w)"
  unfolding ff_mask by (rule bit_word_eqI) (auto simp: bit_simps)

lemma byte2: "(ucast (signed_drop_bit 16 (w :: 32 word) AND 0xff) :: 8 word) = ucast (drop_bit 16 w)"
  unfolding ff_mask by (rule bit_word_eqI) (auto simp: bit_simps)

lemma byte1': "(ucast (signed_drop_bit 8 (w :: 32 word)) :: 8 word) = ucast (drop_bit 8 w)"
  by (rule bit_word_eqI) (auto simp: bit_simps)

lemma byte2': "(ucast (signed_drop_bit 16 (w :: 32 word)) :: 8 word) = ucast (drop_bit 16 w)"
  by (rule bit_word_eqI) (auto simp: bit_simps)

lemma length_le16 [simp]: "length (le16 w) = 2"
  by (simp add: le16_def)

lemma length_le32 [simp]: "length (le32 w) = 4"
  by (simp add: le32_def)

lemma length_asciiBytes [simp]: "length (asciiBytes s) = length s"
  by (simp add: asciiBytes_def)

lemma length_sampleBytes [simp]: "length (sampleBytes bd x) = bitsOf bd div 8"
  by (cases bd) (simp_all add: sampleBytes_def)

subsection \<open>The writes of createWavFile\<close>

text \<open>
  A write that starts where the bytes written so far end, into a zero-filled rest.
\<close>

lemma putBytes_next:
  assumes "length pre = off" and "length bs \<le> n"
  shows "putBytes (pre @ replicate n 0) off bs = Inr ((pre @ bs) @ replicate (n - length bs) 0)"
  using assms by (simp add: putBytes_def)

lemma writeString_next:
  assumes "length pre = off" and "length s \<le> n"
  shows "writeString (pre @ replicate n 0) off s
         = Inr ((pre @ asciiBytes s) @ replicate (n - length s) 0)"
  using assms
proof (induction s arbitrary: pre off n)
  case Nil
  then show ?case by (simp add: asciiBytes_def)
next
  case (Cons c cs)
  from Cons.prems have n: "1 \<le> n" "length cs \<le> n - 1" by simp_all
  have "setUint8 (pre @ replicate n 0) off (charCode c)
        = Inr ((pre @ [word_of_int (charCode c)]) @ replicate (n - 1) 0)"
    using putBytes_next [of pre off "[word_of_int (charCode c)]" n] Cons.prems n
    by (simp add: setUint8_def)
  moreover have "writeString ((pre @ [word_of_int (charCode c)]) @ replicate (n - 1) 0) (off + 1) cs
        = Inr (((pre @ [word_of_int (charCode c)]) @ asciiBytes cs) @ replicate (n - 1 - length cs) 0)"
    using Cons.prems n by (intro Cons.IH) simp_all
  ultimately show ?case by (simp add: asciiBytes_def)
qed

lemma setUint32_next:
  assumes "length pre = off" and "4 \<le> n"
  shows "setUint32 (pre @ replicate n 0) off v
         = Inr ((pre @ le32 (word_of_int v)) @ replicate (n - 4) 0)"
  using putBytes_next [of pre off "le32 (word_of_int v)" n] assms by (simp add: setUint32_def)

lemma setUint16_next:
  assumes "length pre = off" and "2 \<le> n"
  shows "setUint16 (pre @ replicate n 0) off v
         = Inr ((pre @ le16 (word_of_int v)) @ replicate (n - 2) 0)"
  using putBytes_next [of pre off "le16 (word_of_int v)" n] assms by (simp add: setUint16_def)

lemma writeSample_next:
  assumes "length pre = off" and "bitsOf bd div 8 \<le> n"
  shows "writeSample bd (pre @ replicate n 0) off x
         = Inr ((pre @ sampleBytes bd x) @ replicate (n - bitsOf bd div 8) 0)"
proof (cases bd)
  case Bits8
  with assms putBytes_next [of pre off "sampleBytes bd x" n] show ?thesis
    by (simp add: sampleBytes_def setUint8_def)
next
  case Bits16
  with assms putBytes_next [of pre off "sampleBytes bd x" n] show ?thesis
    by (simp add: sampleBytes_def setInt16_def)
next
  case Bits32
  with assms putBytes_next [of pre off "sampleBytes bd x" n] show ?thesis
    by (simp add: sampleBytes_def setInt32_def)
next
  case Bits24
  let ?w = "word_of_int \<lfloor>x * 8388607\<rfloor> :: 32 word"
  from assms Bits24 have n: "3 \<le> n" by simp
  have a: "putBytes (pre @ replicate n 0) off [ucast ?w]
           = Inr ((pre @ [ucast ?w]) @ replicate (n - 1) 0)"
    using putBytes_next [of pre off "[ucast ?w]" n] assms n by simp
  have b: "putBytes ((pre @ [ucast ?w]) @ replicate (n - 1) 0) (off + 1) [ucast (drop_bit 8 ?w)]
           = Inr (((pre @ [ucast ?w]) @ [ucast (drop_bit 8 ?w)]) @ replicate (n - 2) 0)"
    using putBytes_next [of "pre @ [ucast ?w]" "off + 1" "[ucast (drop_bit 8 ?w)]" "n - 1"] assms n
    by simp
  have c: "putBytes (((pre @ [ucast ?w]) @ [ucast (drop_bit 8 ?w)]) @ replicate (n - 2) 0) (off + 2)
             [ucast (drop_bit 16 ?w)]
           = Inr ((((pre @ [ucast ?w]) @ [ucast (drop_bit 8 ?w)]) @ [ucast (drop_bit 16 ?w)])
                  @ replicate (n - 3) 0)"
    using putBytes_next [of "(pre @ [ucast ?w]) @ [ucast (drop_bit 8 ?w)]" "off + 2"
            "[ucast (drop_bit 16 ?w)]" "n - 2"] assms n
    by simp
  from Bits24 a b c show ?thesis
    by (simp add: setUint8_def byte0 byte1 byte2 byte1' byte2' sampleBytes_def le32_def Let_def del: append_assoc)
qed

lemma writeSamples_next:
  assumes "length pre = off" and "bps = bitsOf bd div 8"
  shows "writeSamples bd bps (pre @ replicate (length xs * bps) 0) off xs
         = Inr (pre @ concat (map (\<lambda>x. sampleBytes bd (clampSample x)) xs))"
  using assms
proof (induction xs arbitrary: pre off)
  case Nil
  then show ?case by simp
next
  case (Cons x xs)
  have "writeSample bd (pre @ replicate (length (x # xs) * bps) 0) off (clampSample x)
        = Inr ((pre @ sampleBytes bd (clampSample x)) @ replicate (length xs * bps) 0)"
    using writeSample_next [of pre off bd "length (x # xs) * bps" "clampSample x"] Cons.prems
    by simp
  moreover have "writeSamples bd bps
           ((pre @ sampleBytes bd (clampSample x)) @ replicate (length xs * bps) 0) (off + bps) xs
        = Inr ((pre @ sampleBytes bd (clampSample x))
               @ concat (map (\<lambda>x. sampleBytes bd (clampSample x)) xs))"
    using Cons.prems by (intro Cons.IH) simp_all
  ultimately show ?case by simp
qed

lemma writeString_first:
  "length s \<le> n \<Longrightarrow> writeString (replicate n 0) 0 s = Inr (asciiBytes s @ replicate (n - length s) 0)"
  using writeString_next [of "[]" 0 s n] by simp

lemma writeSamples_last:
  assumes "length pre = off" and "bps = bitsOf bd div 8" and "n = length xs * bps"
  shows "writeSamples bd bps (pre @ replicate n 0) off xs
         = Inr (pre @ concat (map (\<lambda>x. sampleBytes bd (clampSample x)) xs))"
  using writeSamples_next [of pre off bps bd xs] assms by simp

text \<open>
  No write of \<open>createWavFile\<close> is out of range: the call returns, and the file is the
  header followed by the bytes of the clamped samples.
\<close>

lemma createWavFile_bytes:
  "createWavFile samples options
   = Inr (wavHeader (length samples * (bitsOf (bitDepth options) div 8)) options
          @ concat (map (\<lambda>x. sampleBytes (bitDepth options) (clampSample x)) samples))"
proof -
  define d where "d = length samples * (bitsOf (bitDepth options) div 8)"
  let ?P1 = "asciiBytes ''RIFF''"
  have s1: "writeString (replicate (44 + d) 0) 0 ''RIFF'' = Inr (?P1 @ replicate (40 + d) 0)"
    using writeString_first [of "''RIFF''" "44 + d"] by simp
  let ?P2 = "?P1 @ le32 (word_of_int (int (44 + d) - 8))"
  have s2: "setUint32 (?P1 @ replicate (40 + d) 0) 4 (int (44 + d) - 8) = Inr (?P2 @ replicate (36 + d) 0)"
    using setUint32_next [of "?P1" 4 "40 + d" "int (44 + d) - 8"] by simp
  let ?P3 = "?P2 @ asciiBytes ''WAVE''"
  have s3: "writeString (?P2 @ replicate (36 + d) 0) 8 ''WAVE'' = Inr (?P3 @ replicate (32 + d) 0)"
    using writeString_next [of "?P2" 8 "''WAVE''" "36 + d"] by simp
  let ?P4 = "?P3 @ asciiBytes ''fmt ''"
  have s4: "writeString (?P3 @ replicate (32 + d) 0) 12 ''fmt '' = Inr (?P4 @ replicate (28 + d) 0)"
    using writeString_next [of "?P3" 12 "''fmt ''" "32 + d"] by simp
  let ?P5 = "?P4 @ le32 (word_of_int 16)"
  have s5: "setUint32 (?P4 @ replicate (28 + d) 0) 16 16 = Inr (?P5 @ replicate (24 + d) 0)"
    using setUint32_next [of "?P4" 16 "28 + d" "16"] by simp
  let ?P6 = "?P5 @ le16 (word_of_int 1)"
  have s6: "setUint16 (?P5 @ replicate (24 + d) 0) 20 1 = Inr (?P6 @ replicate (22 + d) 0)"
    using setUint16_next [of "?P5" 20 "24 + d" "1"] by simp
  let ?P7 = "?P6 @ le16 (word_of_int (int (channelsOf (audioChannels options))))"
  have s7: "setUint16 (?P6 @ replicate (22 + d) 0) 22 (int (channelsOf (audioChannels options))) = Inr (?P7 @ replicate (20 + d) 0)"
    using setUint16_next [of "?P6" 22 "22 + d" "int (channelsOf (audioChannels options))"] by simp
  let ?P8 = "?P7 @ le32 (word_of_int (int (sampleRate options)))"
  have s8: "setUint32 (?P7 @ replicate (20 + d) 0) 24 (int (sampleRate options)) = Inr (?P8 @ replicate (16 + d) 0)"
    using setUint32_next [of "?P7" 24 "20 + d" "int (sampleRate options)"] by simp
  let ?P9 = "?P8 @ le32 (word_of_int (int (sampleRate options * channelsOf (audioChannels options) * (bitsOf (bitDepth options) div 8))))"
  have s9: "setUint32 (?P8 @ replicate (16 + d) 0) 28 (int (sampleRate options * channelsOf (audioChannels options) * (bitsOf (bitDepth options) div 8))) = Inr (?P9 @ replicate (12 + d) 0)"
    using setUint32_next [of "?P8" 28 "16 + d" "int (sampleRate options * channelsOf (audioChannels options) * (bitsOf (bitDepth options) div 8))"] by simp
  let ?P10 = "?P9 @ le16 (word_of_int (int (channelsOf (audioChannels options) * (bitsOf (bitDepth options) div 8))))"
  have s10: "setUint16 (?P9 @ replicate (12 + d) 0) 32 (int (channelsOf (audioChannels options) * (bitsOf (bitDepth options) div 8))) = Inr (?P10 @ replicate (10 + d) 0)"
    using setUint16_next [of "?P9" 32 "12 + d" "int (channelsOf (audioChannels options) * (bitsOf (bitDepth options) div 8))"] by simp
  let ?P11 = "?P10 @ le16 (word_of_int (int (bitsOf (bitDepth options))))"
  have s11: "setUint16 (?P10 @ replicate (10 + d) 0) 34 (int (bitsOf (bitDepth options))) = Inr (?P11 @ replicate (8 + d) 0)"
    using setUint16_next [of "?P10" 34 "10 + d" "int (bitsOf (bitDepth options))"] by simp
  let ?P12 = "?P11 @ asciiBytes ''data''"
  have s12: "writeString (?P11 @ replicate (8 + d) 0) 36 ''data'' = Inr (?P12 @ replicate (4 + d) 0)"
    using writeString_next [of "?P11" 36 "''data''" "8 + d"] by simp
  let ?P13 = "?P12 @ le32 (word_of_int (int d))"
  have s13: "setUint32 (?P12 @ replicate (4 + d) 0) 40 (int d) = Inr (?P13 @ replicate d 0)"
    using setUint32_next [of "?P12" 40 "4 + d" "int d"] by simp
  have w: "writeSamples (bitDepth options) (bitsOf (bitDepth options) div 8)
             (?P13 @ replicate d 0) 44 samples
           = Inr (?P13 @ concat (map (\<lambda>x. sampleBytes (bitDepth options) (clampSample x)) samples))"
    by (rule writeSamples_last) (simp_all add: d_def)
  have h: "?P13 = wavHeader d options"
    by (simp add: wavHeader_def)
  have "createWavFile samples options
        = Inr (?P13 @ concat (map (\<lambda>x. sampleBytes (bitDepth options) (clampSample x)) samples))"
    unfolding createWavFile_def Let_def d_def [symmetric]
    by (simp only: s1 s2 s3 s4 s5 s6 s7 s8 s9 s10 s11 s12 s13 w andThen_Inr)
  with h show ?thesis by (simp only: d_def)
qed

lemma getUint32_skip:
  "length a \<le> off \<Longrightarrow> getUint32 (a @ xs) off = getUint32 xs (off - length a)"
  by (simp add: getUint32_def nth_append Suc_diff_le)

lemma getUint16_skip:
  "length a \<le> off \<Longrightarrow> getUint16 (a @ xs) off = getUint16 xs (off - length a)"
  by (simp add: getUint16_def nth_append Suc_diff_le)

lemma getUint32_le32: "getUint32 (le32 w @ rest) 0 = w"
  using rd32_le32 [of w] by (simp add: getUint32_def le32_def)

lemma getUint16_le16: "getUint16 (le16 w @ rest) 0 = w"
  using rd16_le16 [of w] by (simp add: getUint16_def le16_def)

lemma clampSample_range: "- 1 \<le> clampSample x \<and> clampSample x \<le> 1"
  by (simp add: clampSample_def)

lemmas read_simps =
  getUint32_skip getUint16_skip getUint32_le32 getUint16_le16

subsection \<open>C8: the WAV header\<close>

text \<open>
  C8: for every list of samples and all options, \<open>createWavFile\<close> returns a buffer of
  \<open>44 + dataSize\<close> bytes whose bytes 0-3 are "RIFF", 8-11 "WAVE", 12-15 "fmt ", 36-39
  "data"; whose little-endian fields are: at 4 the file size minus 8, at 16 the number 16,
  at 20 the number 1, at 22 the channel count, at 24 the sample rate, at 28
  \<open>sampleRate * channels * bytesPerSample\<close>, at 32 \<open>channels * bytesPerSample\<close>, at 34 the
  bit depth, at 40 the data byte count; and whose bytes from 44 on are the quantised
  samples, each clamped to the interval from -1 to 1 first. A field of 32 bits holds its
  value as a word, that is the number itself whenever it is below \<open>2^32\<close>.
\<close>

theorem wav_header_layout:
  "\<exists>buf. createWavFile samples options = Inr buf
     \<and> length buf = 44 + length samples * (bitsOf (bitDepth options) div 8)
     \<and> take 4 buf = asciiBytes ''RIFF''
     \<and> getUint32 buf 4 = word_of_nat (length buf - 8)
     \<and> take 4 (drop 8 buf) = asciiBytes ''WAVE''
     \<and> take 4 (drop 12 buf) = asciiBytes ''fmt ''
     \<and> getUint32 buf 16 = 16
     \<and> getUint16 buf 20 = 1
     \<and> getUint16 buf 22 = word_of_nat (channelsOf (audioChannels options))
     \<and> getUint32 buf 24 = word_of_nat (sampleRate options)
     \<and> getUint32 buf 28
         = word_of_nat (sampleRate options * channelsOf (audioChannels options)
                        * (bitsOf (bitDepth options) div 8))
     \<and> getUint16 buf 32
         = word_of_nat (channelsOf (audioChannels options) * (bitsOf (bitDepth options) div 8))
     \<and> getUint16 buf 34 = word_of_nat (bitsOf (bitDepth options))
     \<and> take 4 (drop 36 buf) = asciiBytes ''data''
     \<and> getUint32 buf 40 = word_of_nat (length samples * (bitsOf (bitDepth options) div 8))
     \<and> drop 44 buf
         = concat (map (\<lambda>x. sampleBytes (bitDepth options) (clampSample x)) samples)
     \<and> (\<forall>x \<in> set samples. - 1 \<le> clampSample x \<and> clampSample x \<le> 1)
     \<and> unat (getUint16 buf 22) = channelsOf (audioChannels options)
     \<and> unat (getUint16 buf 32)
         = channelsOf (audioChannels options) * (bitsOf (bitDepth options) div 8)
     \<and> unat (getUint16 buf 34) = bitsOf (bitDepth options)
     \<and> (length buf - 8 < 2 ^ 32 \<and>
          sampleRate options * channelsOf (audioChannels options)
            * (bitsOf (bitDepth options) div 8) < 2 ^ 32 \<longrightarrow>
          unat (getUint32 buf 4) = length buf - 8
          \<and> unat (getUint32 buf 24) = sampleRate options
          \<and> unat (getUint32 buf 28)
              = sampleRate options * channelsOf (audioChannels options)
                * (bitsOf (bitDepth options) div 8)
          \<and> unat (getUint32 buf 40) = length samples * (bitsOf (bitDepth options) div 8))"
proof -
  let ?d = "length samples * (bitsOf (bitDepth options) div 8)"
  let ?data = "concat (map (\<lambda>x. sampleBytes (bitDepth options) (clampSample x)) samples)"
  let ?buf = "wavHeader ?d options @ ?data"
  have len_data: "length ?data = ?d"
    by (induction samples) simp_all
  have c: "createWavFile samples options = Inr ?buf"
    by (rule createWavFile_bytes)
  have l: "length ?buf = 44 + ?d"
    by (simp add: wavHeader_def len_data)
  have f0: "take 4 ?buf = asciiBytes ''RIFF''"
    by (simp add: wavHeader_def)
  have f4: "getUint32 ?buf 4 = word_of_nat (length ?buf - 8)"
    unfolding l by (simp add: wavHeader_def read_simps)
  have f8: "take 4 (drop 8 ?buf) = asciiBytes ''WAVE''"
    by (simp add: wavHeader_def)
  have f12: "take 4 (drop 12 ?buf) = asciiBytes ''fmt ''"
    by (simp add: wavHeader_def)
  have f16: "getUint32 ?buf 16 = 16"
    by (simp add: wavHeader_def read_simps)
  have f20: "getUint16 ?buf 20 = 1"
    by (simp add: wavHeader_def read_simps)
  have f22: "getUint16 ?buf 22 = word_of_nat (channelsOf (audioChannels options))"
    by (simp add: wavHeader_def read_simps)
  have f24: "getUint32 ?buf 24 = word_of_nat (sampleRate options)"
    by (simp add: wavHeader_def read_simps)
  have f28: "getUint32 ?buf 28
         = word_of_nat (sampleRate options * channelsOf (audioChannels options)
                        * (bitsOf (bitDepth options) div 8))"
    by (simp add: wavHeader_def read_simps)
  have f32: "getUint16 ?buf 32
         = word_of_nat (channelsOf (audioChannels options) * (bitsOf (bitDepth options) div 8))"
    by (simp add: wavHeader_def read_simps)
  have f34: "getUint16 ?buf 34 = word_of_nat (bitsOf (bitDepth options))"
    by (simp add: wavHeader_def read_simps)
  have f36: "take 4 (drop 36 ?buf) = asciiBytes ''data''"
    by (simp add: wavHeader_def)
  have f40: "getUint32 ?buf 40 = word_of_nat ?d"
    by (simp add: wavHeader_def read_simps)
  have f44: "drop 44 ?buf = ?data"
    by (simp add: wavHeader_def)
  have cl: "\<forall>x \<in> set samples. - 1 \<le> clampSample x \<and> clampSample x \<le> 1"
    by (simp add: clampSample_range)
  have u22: "unat (getUint16 ?buf 22) = channelsOf (audioChannels options)"
    unfolding f22 by (cases "audioChannels options") simp_all
  have u32: "unat (getUint16 ?buf 32)
         = channelsOf (audioChannels options) * (bitsOf (bitDepth options) div 8)"
    unfolding f32 by (cases "audioChannels options"; cases "bitDepth options") simp_all
  have u34: "unat (getUint16 ?buf 34) = bitsOf (bitDepth options)"
    unfolding f34 by (cases "bitDepth options") simp_all
  have big: "length ?buf - 8 < 2 ^ 32 \<and>
          sampleRate options * channelsOf (audioChannels options)
            * (bitsOf (bitDepth options) div 8) < 2 ^ 32 \<longrightarrow>
          unat (getUint32 ?buf 4) = length ?buf - 8
          \<and> unat (getUint32 ?buf 24) = sampleRate options
          \<and> unat (getUint32 ?buf 28)
              = sampleRate options * channelsOf (audioChannels options)
                * (bitsOf (bitDepth options) div 8)
          \<and> unat (getUint32 ?buf 40) = ?d"
  proof (intro impI, elim conjE)
    assume a: "length ?buf - 8 < 2 ^ 32"
      and b: "sampleRate options * channelsOf (audioChannels options)
            * (bitsOf (bitDepth options) div 8) < 2 ^ 32"
    have "sampleRate options
            \<le> sampleRate options * channelsOf (audioChannels options)
               * (bitsOf (bitDepth options) div 8)"
      by (cases "audioChannels options"; cases "bitDepth options") simp_all
    with b have sr: "sampleRate options < 2 ^ 32" by linarith
    from a l have dd: "?d < 2 ^ 32" by simp
    have u: "\<And>n. n < 2 ^ 32 \<Longrightarrow> unat (word_of_nat n :: 32 word) = n"
      by (simp add: unat_of_nat)
    show "unat (getUint32 ?buf 4) = length ?buf - 8
          \<and> unat (getUint32 ?buf 24) = sampleRate options
          \<and> unat (getUint32 ?buf 28)
              = sampleRate options * channelsOf (audioChannels options)
                * (bitsOf (bitDepth options) div 8)
          \<and> unat (getUint32 ?buf 40) = ?d"
      unfolding f4 f24 f28 f40 using a b sr dd by (simp only: u simp_thms)
  qed
  show ?thesis
    by (rule exI [of _ ?buf], intro conjI)
       (rule c l f0 f4 f8 f12 f16 f20 f22 f24 f28 f32 f34 f36 f40 f44 cl u22 u32 u34 big)+
qed

text \<open>
  The file for the samples 0, 1/2 and -2 at 44100 Hz, 16 bits, stereo, byte by byte.
\<close>

lemma wav_run:
  "createWavFile [0, 1 / 2, - 2] cdOptions
   = Inr [82, 73, 70, 70, 42, 0, 0, 0, 87, 65, 86, 69, 102, 109, 116, 32, 16, 0, 0, 0,
          1, 0, 2, 0, 68, 172, 0, 0, 16, 177, 2, 0, 4, 0, 16, 0, 100, 97, 116, 97,
          6, 0, 0, 0, 0, 0, 255, 63, 1, 128]"
proof -
  have fl: "\<lfloor>32767 / 2 :: rat\<rfloor> = 16383"
    by (simp add: floor_eq_iff)
  show ?thesis
    by (simp add: createWavFile_bytes wavHeader_def cdOptions_def le32_def le16_def
          asciiBytes_def charCode_def sampleBytes_def clampSample_def fl)
qed

text \<open>
  The fields of that file, read through the theorem.
\<close>

theorem wav_header_layout_witness:
  "createWavFile [0, 1 / 2, - 2] cdOptions = Inr wavBytes
   \<and> length wavBytes - 8 < 2 ^ 32
   \<and> sampleRate cdOptions * channelsOf (audioChannels cdOptions)
       * (bitsOf (bitDepth cdOptions) div 8) < 2 ^ 32
   \<and> take 4 wavBytes = asciiBytes ''RIFF''
   \<and> take 4 (drop 8 wavBytes) = asciiBytes ''WAVE''
   \<and> unat (getUint32 wavBytes 4) = 42
   \<and> unat (getUint16 wavBytes 22) = 2
   \<and> unat (getUint32 wavBytes 24) = 44100
   \<and> unat (getUint32 wavBytes 28) = 176400
   \<and> unat (getUint32 wavBytes 40) = 6
   \<and> drop 44 wavBytes = [0, 0, 255, 63, 1, 128]"
proof -
  have run: "createWavFile [0, 1 / 2, - 2] cdOptions = Inr wavBytes"
    unfolding wavBytes_def by (rule wav_run)
  have h1: "length wavBytes - 8 < 2 ^ 32"
    by (simp add: wavBytes_def)
  have h2: "sampleRate cdOptions * channelsOf (audioChannels cdOptions)
       * (bitsOf (bitDepth cdOptions) div 8) < 2 ^ 32"
    by (simp add: cdOptions_def)
  from wav_header_layout [of "[0, 1 / 2, - 2]" cdOptions] obtain buf where
    b: "createWavFile [0, 1 / 2, - 2] cdOptions = Inr buf"
    and f0: "take 4 buf = asciiBytes ''RIFF''"
    and f8: "take 4 (drop 8 buf) = asciiBytes ''WAVE''"
    and u22: "unat (getUint16 buf 22) = channelsOf (audioChannels cdOptions)"
    and big: "length buf - 8 < 2 ^ 32 \<and>
          sampleRate cdOptions * channelsOf (audioChannels cdOptions)
            * (bitsOf (bitDepth cdOptions) div 8) < 2 ^ 32 \<longrightarrow>
          unat (getUint32 buf 4) = length buf - 8
          \<and> unat (getUint32 buf 24) = sampleRate cdOptions
          \<and> unat (getUint32 buf 28)
              = sampleRate cdOptions * channelsOf (audioChannels cdOptions)
                * (bitsOf (bitDepth cdOptions) div 8)
          \<and> unat (getUint32 buf 40) = length [0, 1 / 2, - 2 :: rat] * (bitsOf (bitDepth cdOptions) div 8)"
    and f44: "drop 44 buf
         = concat (map (\<lambda>x. sampleBytes (bitDepth cdOptions) (clampSample x)) [0, 1 / 2, - 2])"
    by blast
  from b run have eq: "buf = wavBytes" by simp
  from big h1 h2 have vals:
    "unat (getUint32 wavBytes 4) = length wavBytes - 8"
    "unat (getUint32 wavBytes 24) = sampleRate cdOptions"
    "unat (getUint32 wavBytes 28) = sampleRate cdOptions * channelsOf (audioChannels cdOptions)
                * (bitsOf (bitDepth cdOptions) div 8)"
    "unat (getUint32 wavBytes 40) = length [0, 1 / 2, - 2 :: rat] * (bitsOf (bitDepth cdOptions) div 8)"
    unfolding eq by blast+
  have d: "drop 44 wavBytes = [0, 0, 255, 63, 1, 128]"
    by (simp add: wavBytes_def)
  have n: "length wavBytes - 8 = 42" by (simp add: wavBytes_def)
  have v4: "unat (getUint32 wavBytes 4) = 42"
    using vals(1) n by simp
  have v22: "unat (getUint16 wavBytes 22) = 2"
    using u22 unfolding eq by (simp add: cdOptions_def)
  have v24: "unat (getUint32 wavBytes 24) = 44100"
    using vals(2) by (simp add: cdOptions_def)
  have v28: "unat (getUint32 wavBytes 28) = 176400"
    using vals(3) by (simp add: cdOptions_def)
  have v40: "unat (getUint32 wavBytes 40) = 6"
    using vals(4) by (simp add: cdOptions_def)
  show ?thesis
    by (intro conjI) (rule run h1 h2 f0 [unfolded eq] f8 [unfolded eq] v4 v22 v24 v28 v40 d)+
qed

subsection \<open>C9: the duration of an export\<close>






end
